theory Spec2Isabelle
  imports Complex_Main
begin

section \<open>Numbers, time and the random source\<close>

text \<open>
  The dashboard computes on JavaScript numbers. They are modelled as real numbers: the
  formulas below are the source's formulas read over the reals, and rounding of IEEE
  doubles is not modelled. A \<^verbatim>\<open>Date\<close> is its number of milliseconds since the epoch, an
  integer. \<^verbatim>\<open>toLocaleTimeString\<close> belongs to the host, so every function that renders a
  time takes it as the parameter \<open>fmt\<close>.

  \<^verbatim>\<open>Math.random()\<close> is ambient state in the source. Here the source of randomness is the
  infinite sequence of the draws still to come; one call returns the first draw and the
  rest of the sequence.
\<close>

type_synonym rng = "nat \<Rightarrow> real"

definition Math_random :: "rng \<Rightarrow> real \<times> rng" where
  "Math_random g = (g 0, \<lambda>n. g (Suc n))"

text \<open>\<^verbatim>\<open>Math.random()\<close> returns a number in \<open>[0, 1)\<close>: the sequences the code can meet.\<close>

definition unit_draws :: "rng \<Rightarrow> bool" where
  "unit_draws g = (\<forall>n. 0 \<le> g n \<and> g n < 1)"

text \<open>The sequence after its first \<open>k\<close> draws.\<close>

definition skip :: "nat \<Rightarrow> rng \<Rightarrow> rng" where
  "skip k g = (\<lambda>n. g (n + k))"


section \<open>Data model\<close>

text \<open>The fields \<^verbatim>\<open>min\<close> and \<^verbatim>\<open>max\<close> of a channel are \<open>min_cfg\<close> and \<open>max_cfg\<close> here.\<close>

record channel_config =
  baseline :: real
  variance :: real
  min_cfg :: real
  max_cfg :: real

datatype channel =
  CaseTemp | SuctionTemp | DischargeTemp | EvaporatorTemp | TxValvePosition | TxValveSuperheat

record channel_values =
  caseTemp :: real
  suctionTemp :: real
  dischargeTemp :: real
  evaporatorTemp :: real
  txValvePosition :: real
  txValveSuperheat :: real

text \<open>A data point is \<^verbatim>\<open>{ time, timestamp, ...newValues }\<close>.\<close>

record dataPoint = channel_values +
  time :: string
  timestamp :: int

record binary_states =
  defrostMode :: bool
  compressorRunning :: bool
  evaporatorFan :: bool
  caseLight :: bool
  doorSwitch :: bool
  alarmStatus :: bool

text \<open>The three \<^verbatim>\<open>useState\<close> cells the simulator reads and writes.\<close>

record dashboard =
  data :: "dataPoint list"
  binaryStates :: binary_states
  currentValues :: channel_values


section \<open>src/components/RefrigerationDashboard.jsx\<close>

fun SIMULATION_CONFIG :: "channel \<Rightarrow> channel_config" where
  "SIMULATION_CONFIG CaseTemp =
     \<lparr>baseline = 35, variance = 2, min_cfg = 32, max_cfg = 40\<rparr>"
| "SIMULATION_CONFIG SuctionTemp =
     \<lparr>baseline = 20, variance = 3, min_cfg = 15, max_cfg = 25\<rparr>"
| "SIMULATION_CONFIG DischargeTemp =
     \<lparr>baseline = 140, variance = 5, min_cfg = 130, max_cfg = 155\<rparr>"
| "SIMULATION_CONFIG EvaporatorTemp =
     \<lparr>baseline = 28, variance = 2, min_cfg = 25, max_cfg = 35\<rparr>"
| "SIMULATION_CONFIG TxValvePosition =
     \<lparr>baseline = 45, variance = 10, min_cfg = 20, max_cfg = 70\<rparr>"
| "SIMULATION_CONFIG TxValveSuperheat =
     \<lparr>baseline = 8, variance = 2, min_cfg = 4, max_cfg = 15\<rparr>"

definition generateValue :: "channel_config \<Rightarrow> real \<Rightarrow> bool \<Rightarrow> rng \<Rightarrow> real \<times> rng" where
  "generateValue config previousValue inDefrost g =
     (if inDefrost then
        (let defrostMultiplier = (if baseline config < 50 then 1.5 else 1.1);
             (r, g1) = Math_random g
         in (min (max_cfg config)
               (previousValue + (r - 0.3) * variance config * defrostMultiplier), g1))
      else
        (let (r1, g1) = Math_random g;
             target = baseline config + (r1 - 0.5) * variance config;
             (r2, g2) = Math_random g1;
             change = (target - previousValue) * 0.3 + (r2 - 0.5) * variance config * 0.5
         in (max (min_cfg config) (min (max_cfg config) (previousValue + change)), g2)))"

definition initial_binaryStates :: binary_states where
  "initial_binaryStates =
     \<lparr>defrostMode = False, compressorRunning = True, evaporatorFan = True,
      caseLight = True, doorSwitch = False, alarmStatus = False\<rparr>"

definition initial_currentValues :: channel_values where
  "initial_currentValues =
     \<lparr>caseTemp = 35, suctionTemp = 20, dischargeTemp = 140, evaporatorTemp = 28,
      txValvePosition = 45, txValveSuperheat = 8\<rparr>"

definition initial_dashboard :: dashboard where
  "initial_dashboard =
     \<lparr>data = [], binaryStates = initial_binaryStates, currentValues = initial_currentValues\<rparr>"

subsection \<open>The first effect: initial history\<close>

text \<open>
  One round of the loop \<^verbatim>\<open>for (let i = 60; i > 0; i--)\<close>: the data point pushed for the
  counter \<open>i\<close>, its six draws taken in the order of the object literal.
\<close>

definition initialData_point :: "(int \<Rightarrow> string) \<Rightarrow> int \<Rightarrow> nat \<Rightarrow> rng \<Rightarrow> dataPoint \<times> rng" where
  "initialData_point fmt now i g =
     (let timestamp = now - int i * 5000;
          (r1, g1) = Math_random g;
          (r2, g2) = Math_random g1;
          (r3, g3) = Math_random g2;
          (r4, g4) = Math_random g3;
          (r5, g5) = Math_random g4;
          (r6, g6) = Math_random g5
      in (\<lparr>caseTemp = 35 + (r1 - 0.5) * 2,
           suctionTemp = 20 + (r2 - 0.5) * 2,
           dischargeTemp = 140 + (r3 - 0.5) * 5,
           evaporatorTemp = 28 + (r4 - 0.5) * 2,
           txValvePosition = 45 + (r5 - 0.5) * 10,
           txValveSuperheat = 8 + (r6 - 0.5) * 2,
           time = fmt timestamp,
           timestamp = timestamp\<rparr>, g6))"

fun initialData_loop ::
  "(int \<Rightarrow> string) \<Rightarrow> int \<Rightarrow> nat \<Rightarrow> dataPoint list \<Rightarrow> rng \<Rightarrow> dataPoint list \<times> rng" where
  "initialData_loop fmt now 0 initialData g = (initialData, g)"
| "initialData_loop fmt now (Suc k) initialData g =
     (let (p, g') = initialData_point fmt now (Suc k) g
      in initialData_loop fmt now k (initialData @ [p]) g')"

definition initialData :: "(int \<Rightarrow> string) \<Rightarrow> int \<Rightarrow> rng \<Rightarrow> dataPoint list \<times> rng" where
  "initialData fmt now g = initialData_loop fmt now 60 [] g"

text \<open>The effect ends with \<^verbatim>\<open>setData(initialData)\<close>.\<close>

definition mount :: "(int \<Rightarrow> string) \<Rightarrow> int \<Rightarrow> dashboard \<Rightarrow> rng \<Rightarrow> dashboard \<times> rng" where
  "mount fmt now s g = (let (d, g') = initialData fmt now g in (s\<lparr>data := d\<rparr>, g'))"

subsection \<open>The second effect: the interval callback\<close>

text \<open>
  \<^verbatim>\<open>&&\<close> evaluates its right operand only when the left one is true, so each of the two
  tests draws only in its own mode.
\<close>

definition shouldStartDefrost :: "binary_states \<Rightarrow> rng \<Rightarrow> bool \<times> rng" where
  "shouldStartDefrost bs g =
     (if \<not> defrostMode bs then (let (r, g') = Math_random g in (r < 0.05, g'))
      else (False, g))"

definition shouldEndDefrost :: "binary_states \<Rightarrow> rng \<Rightarrow> bool \<times> rng" where
  "shouldEndDefrost bs g =
     (if defrostMode bs then (let (r, g') = Math_random g in (r < 0.3, g'))
      else (False, g))"

definition newBinaryStates ::
  "binary_states \<Rightarrow> channel_values \<Rightarrow> rng \<Rightarrow> binary_states \<times> rng" where
  "newBinaryStates bs cv g =
     (let (start, g1) = shouldStartDefrost bs g;
          (end, g2) = shouldEndDefrost bs g1;
          (door, g3) = Math_random g2
      in (bs\<lparr>defrostMode := (if start then True else (if end then False else defrostMode bs)),
              compressorRunning :=
                (if start then False else (if \<not> defrostMode bs \<or> end then True else False)),
              evaporatorFan := (if defrostMode bs then False else True),
              doorSwitch := (door < 0.1),
              alarmStatus := (caseTemp cv > 38 \<or> defrostMode bs)\<rparr>, g3))"

definition newValues :: "channel_values \<Rightarrow> bool \<Rightarrow> rng \<Rightarrow> channel_values \<times> rng" where
  "newValues cv inDefrost g =
     (let (v1, g1) = generateValue (SIMULATION_CONFIG CaseTemp) (caseTemp cv) inDefrost g;
          (v2, g2) = generateValue (SIMULATION_CONFIG SuctionTemp) (suctionTemp cv) inDefrost g1;
          (v3, g3) =
            generateValue (SIMULATION_CONFIG DischargeTemp) (dischargeTemp cv) inDefrost g2;
          (v4, g4) =
            generateValue (SIMULATION_CONFIG EvaporatorTemp) (evaporatorTemp cv) inDefrost g3;
          (v5, g5) =
            generateValue (SIMULATION_CONFIG TxValvePosition) (txValvePosition cv) inDefrost g4;
          (v6, g6) =
            generateValue (SIMULATION_CONFIG TxValveSuperheat) (txValveSuperheat cv) inDefrost g5
      in (\<lparr>caseTemp = v1, suctionTemp = v2, dischargeTemp = v3, evaporatorTemp = v4,
           txValvePosition = v5, txValveSuperheat = v6\<rparr>, g6))"

definition newDataPoint :: "(int \<Rightarrow> string) \<Rightarrow> int \<Rightarrow> channel_values \<Rightarrow> dataPoint" where
  "newDataPoint fmt now nv =
     \<lparr>caseTemp = caseTemp nv, suctionTemp = suctionTemp nv, dischargeTemp = dischargeTemp nv,
      evaporatorTemp = evaporatorTemp nv, txValvePosition = txValvePosition nv,
      txValveSuperheat = txValveSuperheat nv, time = fmt now, timestamp = now\<rparr>"

text \<open>
  \<^verbatim>\<open>xs.slice(-n)\<close>: the last \<open>n\<close> elements, all of them when there are fewer.
\<close>

definition slice_last :: "nat \<Rightarrow> 'a list \<Rightarrow> 'a list" where
  "slice_last n xs = drop (length xs - n) xs"

definition setData :: "dataPoint list \<Rightarrow> dataPoint \<Rightarrow> dataPoint list" where
  "setData prevData p = (let updated = prevData @ [p] in slice_last 60 updated)"

definition tick :: "(int \<Rightarrow> string) \<Rightarrow> int \<Rightarrow> dashboard \<Rightarrow> rng \<Rightarrow> dashboard \<times> rng" where
  "tick fmt now s g =
     (let (nbs, g1) = newBinaryStates (binaryStates s) (currentValues s) g;
          (nv, g2) = newValues (currentValues s) (defrostMode nbs) g1
      in (\<lparr>data = setData (data s) (newDataPoint fmt now nv),
           binaryStates = nbs,
           currentValues = nv\<rparr>, g2))"

text \<open>The interval firing at the times \<open>nows\<close>, one tick each.\<close>

fun ticks :: "(int \<Rightarrow> string) \<Rightarrow> int list \<Rightarrow> dashboard \<Rightarrow> rng \<Rightarrow> dashboard \<times> rng" where
  "ticks fmt [] s g = (s, g)"
| "ticks fmt (now # nows) s g = (let (s', g') = tick fmt now s g in ticks fmt nows s' g')"


section \<open>The dashboard with translations\<close>

text \<open>
  The second source file is the same component with a table of English and Spanish labels
  and a \<^verbatim>\<open>language\<close> cell that only the rendering reads. Its simulator is
  embedded here from its own text, every name suffixed with \<open>_i18n\<close>.
\<close>

fun SIMULATION_CONFIG_i18n :: "channel \<Rightarrow> channel_config" where
  "SIMULATION_CONFIG_i18n CaseTemp =
     \<lparr>baseline = 35, variance = 2, min_cfg = 32, max_cfg = 40\<rparr>"
| "SIMULATION_CONFIG_i18n SuctionTemp =
     \<lparr>baseline = 20, variance = 3, min_cfg = 15, max_cfg = 25\<rparr>"
| "SIMULATION_CONFIG_i18n DischargeTemp =
     \<lparr>baseline = 140, variance = 5, min_cfg = 130, max_cfg = 155\<rparr>"
| "SIMULATION_CONFIG_i18n EvaporatorTemp =
     \<lparr>baseline = 28, variance = 2, min_cfg = 25, max_cfg = 35\<rparr>"
| "SIMULATION_CONFIG_i18n TxValvePosition =
     \<lparr>baseline = 45, variance = 10, min_cfg = 20, max_cfg = 70\<rparr>"
| "SIMULATION_CONFIG_i18n TxValveSuperheat =
     \<lparr>baseline = 8, variance = 2, min_cfg = 4, max_cfg = 15\<rparr>"

definition generateValue_i18n :: "channel_config \<Rightarrow> real \<Rightarrow> bool \<Rightarrow> rng \<Rightarrow> real \<times> rng" where
  "generateValue_i18n config previousValue inDefrost g =
     (if inDefrost then
        (let defrostMultiplier = (if baseline config < 50 then 1.5 else 1.1);
             (r, g1) = Math_random g
         in (min (max_cfg config)
               (previousValue + (r - 0.3) * variance config * defrostMultiplier), g1))
      else
        (let (r1, g1) = Math_random g;
             target = baseline config + (r1 - 0.5) * variance config;
             (r2, g2) = Math_random g1;
             change = (target - previousValue) * 0.3 + (r2 - 0.5) * variance config * 0.5
         in (max (min_cfg config) (min (max_cfg config) (previousValue + change)), g2)))"

definition initial_binaryStates_i18n :: binary_states where
  "initial_binaryStates_i18n =
     \<lparr>defrostMode = False, compressorRunning = True, evaporatorFan = True,
      caseLight = True, doorSwitch = False, alarmStatus = False\<rparr>"

definition initial_currentValues_i18n :: channel_values where
  "initial_currentValues_i18n =
     \<lparr>caseTemp = 35, suctionTemp = 20, dischargeTemp = 140, evaporatorTemp = 28,
      txValvePosition = 45, txValveSuperheat = 8\<rparr>"

definition initial_dashboard_i18n :: dashboard where
  "initial_dashboard_i18n =
     \<lparr>data = [], binaryStates = initial_binaryStates_i18n, currentValues = initial_currentValues_i18n\<rparr>"

definition initialData_point_i18n :: "(int \<Rightarrow> string) \<Rightarrow> int \<Rightarrow> nat \<Rightarrow> rng \<Rightarrow> dataPoint \<times> rng" where
  "initialData_point_i18n fmt now i g =
     (let timestamp = now - int i * 5000;
          (r1, g1) = Math_random g;
          (r2, g2) = Math_random g1;
          (r3, g3) = Math_random g2;
          (r4, g4) = Math_random g3;
          (r5, g5) = Math_random g4;
          (r6, g6) = Math_random g5
      in (\<lparr>caseTemp = 35 + (r1 - 0.5) * 2,
           suctionTemp = 20 + (r2 - 0.5) * 2,
           dischargeTemp = 140 + (r3 - 0.5) * 5,
           evaporatorTemp = 28 + (r4 - 0.5) * 2,
           txValvePosition = 45 + (r5 - 0.5) * 10,
           txValveSuperheat = 8 + (r6 - 0.5) * 2,
           time = fmt timestamp,
           timestamp = timestamp\<rparr>, g6))"

fun initialData_loop_i18n ::
  "(int \<Rightarrow> string) \<Rightarrow> int \<Rightarrow> nat \<Rightarrow> dataPoint list \<Rightarrow> rng \<Rightarrow> dataPoint list \<times> rng" where
  "initialData_loop_i18n fmt now 0 initialData' g = (initialData', g)"
| "initialData_loop_i18n fmt now (Suc k) initialData' g =
     (let (p, g') = initialData_point_i18n fmt now (Suc k) g
      in initialData_loop_i18n fmt now k (initialData' @ [p]) g')"

definition initialData_i18n :: "(int \<Rightarrow> string) \<Rightarrow> int \<Rightarrow> rng \<Rightarrow> dataPoint list \<times> rng" where
  "initialData_i18n fmt now g = initialData_loop_i18n fmt now 60 [] g"

definition mount_i18n :: "(int \<Rightarrow> string) \<Rightarrow> int \<Rightarrow> dashboard \<Rightarrow> rng \<Rightarrow> dashboard \<times> rng" where
  "mount_i18n fmt now s g = (let (d, g') = initialData_i18n fmt now g in (s\<lparr>data := d\<rparr>, g'))"

definition shouldStartDefrost_i18n :: "binary_states \<Rightarrow> rng \<Rightarrow> bool \<times> rng" where
  "shouldStartDefrost_i18n bs g =
     (if \<not> defrostMode bs then (let (r, g') = Math_random g in (r < 0.05, g'))
      else (False, g))"

definition shouldEndDefrost_i18n :: "binary_states \<Rightarrow> rng \<Rightarrow> bool \<times> rng" where
  "shouldEndDefrost_i18n bs g =
     (if defrostMode bs then (let (r, g') = Math_random g in (r < 0.3, g'))
      else (False, g))"

definition newBinaryStates_i18n ::
  "binary_states \<Rightarrow> channel_values \<Rightarrow> rng \<Rightarrow> binary_states \<times> rng" where
  "newBinaryStates_i18n bs cv g =
     (let (start, g1) = shouldStartDefrost_i18n bs g;
          (end, g2) = shouldEndDefrost_i18n bs g1;
          (door, g3) = Math_random g2
      in (bs\<lparr>defrostMode := (if start then True else (if end then False else defrostMode bs)),
              compressorRunning :=
                (if start then False else (if \<not> defrostMode bs \<or> end then True else False)),
              evaporatorFan := (if defrostMode bs then False else True),
              doorSwitch := (door < 0.1),
              alarmStatus := (caseTemp cv > 38 \<or> defrostMode bs)\<rparr>, g3))"

definition newValues_i18n :: "channel_values \<Rightarrow> bool \<Rightarrow> rng \<Rightarrow> channel_values \<times> rng" where
  "newValues_i18n cv inDefrost g =
     (let (v1, g1) = generateValue_i18n (SIMULATION_CONFIG_i18n CaseTemp) (caseTemp cv) inDefrost g;
          (v2, g2) = generateValue_i18n (SIMULATION_CONFIG_i18n SuctionTemp) (suctionTemp cv) inDefrost g1;
          (v3, g3) =
            generateValue_i18n (SIMULATION_CONFIG_i18n DischargeTemp) (dischargeTemp cv) inDefrost g2;
          (v4, g4) =
            generateValue_i18n (SIMULATION_CONFIG_i18n EvaporatorTemp) (evaporatorTemp cv) inDefrost g3;
          (v5, g5) =
            generateValue_i18n (SIMULATION_CONFIG_i18n TxValvePosition) (txValvePosition cv) inDefrost g4;
          (v6, g6) =
            generateValue_i18n (SIMULATION_CONFIG_i18n TxValveSuperheat) (txValveSuperheat cv) inDefrost g5
      in (\<lparr>caseTemp = v1, suctionTemp = v2, dischargeTemp = v3, evaporatorTemp = v4,
           txValvePosition = v5, txValveSuperheat = v6\<rparr>, g6))"

definition newDataPoint_i18n :: "(int \<Rightarrow> string) \<Rightarrow> int \<Rightarrow> channel_values \<Rightarrow> dataPoint" where
  "newDataPoint_i18n fmt now nv =
     \<lparr>caseTemp = caseTemp nv, suctionTemp = suctionTemp nv, dischargeTemp = dischargeTemp nv,
      evaporatorTemp = evaporatorTemp nv, txValvePosition = txValvePosition nv,
      txValveSuperheat = txValveSuperheat nv, time = fmt now, timestamp = now\<rparr>"

definition setData_i18n :: "dataPoint list \<Rightarrow> dataPoint \<Rightarrow> dataPoint list" where
  "setData_i18n prevData p = (let updated = prevData @ [p] in slice_last 60 updated)"

definition tick_i18n :: "(int \<Rightarrow> string) \<Rightarrow> int \<Rightarrow> dashboard \<Rightarrow> rng \<Rightarrow> dashboard \<times> rng" where
  "tick_i18n fmt now s g =
     (let (nbs, g1) = newBinaryStates_i18n (binaryStates s) (currentValues s) g;
          (nv, g2) = newValues_i18n (currentValues s) (defrostMode nbs) g1
      in (\<lparr>data = setData_i18n (data s) (newDataPoint_i18n fmt now nv),
           binaryStates = nbs,
           currentValues = nv\<rparr>, g2))"

fun ticks_i18n :: "(int \<Rightarrow> string) \<Rightarrow> int list \<Rightarrow> dashboard \<Rightarrow> rng \<Rightarrow> dashboard \<times> rng" where
  "ticks_i18n fmt [] s g = (s, g)"
| "ticks_i18n fmt (now # nows) s g = (let (s', g') = tick_i18n fmt now s g in ticks_i18n fmt nows s' g')"


section \<open>Reference notions\<close>

text \<open>Clamping to an interval, as the specification words it.\<close>

definition clamp_to :: "real \<Rightarrow> real \<Rightarrow> real \<Rightarrow> real" where
  "clamp_to lo hi x = (if x < lo then lo else if hi < x then hi else x)"


text \<open>A scripted random source: the draws \<open>xs\<close> in order, then \<open>d\<close> forever.\<close>

definition draws :: "real list \<Rightarrow> real \<Rightarrow> rng" where
  "draws xs d = (\<lambda>n. if n < length xs then xs ! n else d)"


text \<open>
  A script that starts a defrost at the first tick and keeps it going for three more
  ticks: 0 starts it, 1/2 does not end it, and every value draw is 0.
\<close>

definition defrost_script :: rng where
  "defrost_script =
     draws [0, 0, 0, 0, 0, 0, 0, 0,
            1 / 2, 0, 0, 0, 0, 0, 0, 0,
            1 / 2, 0, 0, 0, 0, 0, 0, 0,
            1 / 2] 0"


text \<open>A fresh start: the initial cells, then the first effect.\<close>

definition startup :: "(int \<Rightarrow> string) \<Rightarrow> int \<Rightarrow> rng \<Rightarrow> dashboard \<times> rng" where
  "startup fmt now g = mount fmt now initial_dashboard g"


text \<open>The data points that the ticks at the times \<open>nows\<close> push, in order.\<close>

fun tick_points :: "(int \<Rightarrow> string) \<Rightarrow> int list \<Rightarrow> dashboard \<Rightarrow> rng \<Rightarrow> dataPoint list" where
  "tick_points fmt [] s g = []"
| "tick_points fmt (now # nows) s g =
     (let (s', g') = tick fmt now s g
      in newDataPoint fmt now (currentValues s') # tick_points fmt nows s' g')"

text \<open>All six values of a reading lie in their channels' \<open>[min, max]\<close>.\<close>

definition within_bounds :: "'a channel_values_scheme \<Rightarrow> bool" where
  "within_bounds v =
     (min_cfg (SIMULATION_CONFIG CaseTemp) \<le> caseTemp v
        \<and> caseTemp v \<le> max_cfg (SIMULATION_CONFIG CaseTemp)
      \<and> min_cfg (SIMULATION_CONFIG SuctionTemp) \<le> suctionTemp v
        \<and> suctionTemp v \<le> max_cfg (SIMULATION_CONFIG SuctionTemp)
      \<and> min_cfg (SIMULATION_CONFIG DischargeTemp) \<le> dischargeTemp v
        \<and> dischargeTemp v \<le> max_cfg (SIMULATION_CONFIG DischargeTemp)
      \<and> min_cfg (SIMULATION_CONFIG EvaporatorTemp) \<le> evaporatorTemp v
        \<and> evaporatorTemp v \<le> max_cfg (SIMULATION_CONFIG EvaporatorTemp)
      \<and> min_cfg (SIMULATION_CONFIG TxValvePosition) \<le> txValvePosition v
        \<and> txValvePosition v \<le> max_cfg (SIMULATION_CONFIG TxValvePosition)
      \<and> min_cfg (SIMULATION_CONFIG TxValveSuperheat) \<le> txValveSuperheat v
        \<and> txValveSuperheat v \<le> max_cfg (SIMULATION_CONFIG TxValveSuperheat))"

text \<open>
  A state as a defrost can leave it: the defrost flag set and every value below its
  channel's \<open>min\<close>.
\<close>

definition undershot_dashboard :: dashboard where
  "undershot_dashboard =
     \<lparr>data = [],
      binaryStates = \<lparr>defrostMode = True, compressorRunning = False, evaporatorFan = False,
        caseLight = True, doorSwitch = False, alarmStatus = True\<rparr>,
      currentValues = \<lparr>caseTemp = 311 / 10, suctionTemp = 14, dischargeTemp = 129,
        evaporatorTemp = 24, txValvePosition = 19, txValveSuperheat = 3\<rparr>\<rparr>"


section \<open>The random source and the value generator\<close>

lemma Math_random_eq: "Math_random g = (g 0, skip 1 g)"
  by (simp add: Math_random_def skip_def)

lemma skip_skip: "skip j (skip k g) = skip (k + j) g"
  by (simp add: skip_def ac_simps)

lemma skip_apply: "skip k g n = g (n + k)"
  by (simp add: skip_def)

lemma unit_draws_skip: "unit_draws g \<Longrightarrow> unit_draws (skip k g)"
  by (simp add: unit_draws_def skip_def)

lemma unit_draws_const: "0 \<le> c \<Longrightarrow> c < 1 \<Longrightarrow> unit_draws (\<lambda>_. c)"
  by (simp add: unit_draws_def)

lemma unit_draws_draws:
  "list_all (\<lambda>x. 0 \<le> x \<and> x < 1) xs \<Longrightarrow> 0 \<le> d \<Longrightarrow> d < 1 \<Longrightarrow> unit_draws (draws xs d)"
  by (simp add: unit_draws_def draws_def list_all_length)

lemma generateValue_defrost:
  "generateValue config previousValue True g =
     (min (max_cfg config)
        (previousValue + (g 0 - 0.3) * variance config *
           (if baseline config < 50 then 1.5 else 1.1)), skip 1 g)"
  by (simp add: generateValue_def Math_random_eq Let_def)

lemma generateValue_normal:
  "generateValue config previousValue False g =
     (max (min_cfg config) (min (max_cfg config)
        (previousValue + ((baseline config + (g 0 - 0.5) * variance config - previousValue) * 0.3
           + (g 1 - 0.5) * variance config * 0.5))), skip 2 g)"
  by (simp add: generateValue_def Math_random_eq Let_def skip_skip skip_apply numeral_2_eq_2)

lemma generateValue_defrost_caseTemp:
  "fst (generateValue (SIMULATION_CONFIG CaseTemp) p True g) = min 40 (p + (g 0 - 0.3) * 3)"
proof -
  have "p + (g 0 - 0.3) * 2 * 1.5 = p + (g 0 - 0.3) * 3"
    by (simp add: algebra_simps)
  then have "min 40 (p + (g 0 - 0.3) * 2 * 1.5) = min 40 (p + (g 0 - 0.3) * 3)"
    by (rule arg_cong)
  moreover have "fst (generateValue (SIMULATION_CONFIG CaseTemp) p True g)
      = min 40 (p + (g 0 - 0.3) * 2 * 1.5)"
    unfolding generateValue_defrost by simp
  ultimately show ?thesis
    by (rule trans [rotated])
qed



section \<open>The equipment state machine\<close>

lemma shouldStartDefrost_eq:
  "shouldStartDefrost bs g =
     (if defrostMode bs then (False, g) else (g 0 < 0.05, skip 1 g))"
  by (simp add: shouldStartDefrost_def Math_random_eq)

lemma shouldEndDefrost_eq:
  "shouldEndDefrost bs g =
     (if defrostMode bs then (g 0 < 0.3, skip 1 g) else (False, g))"
  by (simp add: shouldEndDefrost_def Math_random_eq)

lemma newBinaryStates_eq:
  "newBinaryStates bs cv g =
     (\<lparr>defrostMode = (if defrostMode bs then \<not> g 0 < 0.3 else g 0 < 0.05),
       compressorRunning = (if defrostMode bs then g 0 < 0.3 else \<not> g 0 < 0.05),
       evaporatorFan = (\<not> defrostMode bs),
       caseLight = caseLight bs,
       doorSwitch = (g 1 < 0.1),
       alarmStatus = (caseTemp cv > 38 \<or> defrostMode bs)\<rparr>, skip 2 g)"
  by (cases "defrostMode bs")
    (simp_all add: newBinaryStates_def shouldStartDefrost_eq shouldEndDefrost_eq
      Math_random_eq skip_skip skip_apply numeral_2_eq_2)

lemma tick_binaryStates:
  "binaryStates (fst (tick fmt now s g)) = fst (newBinaryStates (binaryStates s) (currentValues s) g)"
  by (simp add: tick_def split_beta Let_def)

lemma tick_currentValues:
  "currentValues (fst (tick fmt now s g))
     = fst (newValues (currentValues s)
         (defrostMode (fst (newBinaryStates (binaryStates s) (currentValues s) g)))
         (snd (newBinaryStates (binaryStates s) (currentValues s) g)))"
  by (simp add: tick_def split_beta Let_def)

lemma tick_rest:
  "snd (tick fmt now s g)
     = snd (newValues (currentValues s)
         (defrostMode (fst (newBinaryStates (binaryStates s) (currentValues s) g)))
         (snd (newBinaryStates (binaryStates s) (currentValues s) g)))"
  by (simp add: tick_def split_beta Let_def)

lemma newValues_defrost_caseTemp:
  "caseTemp (fst (newValues cv True g)) = min 40 (caseTemp cv + (g 0 - 0.3) * 3)"
  by (simp add: newValues_def split_beta Let_def generateValue_defrost_caseTemp
      del: SIMULATION_CONFIG.simps)

lemma newValues_defrost_rest: "snd (newValues cv True g) = skip 6 g"
  by (simp add: newValues_def generateValue_defrost split_beta Let_def skip_skip eval_nat_numeral)

lemma tick_in_defrost:
  assumes "if defrostMode (binaryStates s) then \<not> g 0 < 0.3 else g 0 < 0.05"
  shows "defrostMode (binaryStates (fst (tick fmt now s g)))"
    and "caseTemp (currentValues (fst (tick fmt now s g)))
           = min 40 (caseTemp (currentValues s) + (g 2 - 0.3) * 3)"
    and "snd (tick fmt now s g) = skip 8 g"
proof -
  from assms show d: "defrostMode (binaryStates (fst (tick fmt now s g)))"
    by (simp add: tick_binaryStates newBinaryStates_eq split: if_splits)
  then have n: "defrostMode (fst (newBinaryStates (binaryStates s) (currentValues s) g))"
    by (simp add: tick_binaryStates)
  show "caseTemp (currentValues (fst (tick fmt now s g)))
           = min 40 (caseTemp (currentValues s) + (g 2 - 0.3) * 3)"
    by (simp add: tick_currentValues n newValues_defrost_caseTemp)
      (simp add: newBinaryStates_eq skip_apply eval_nat_numeral)
  show "snd (tick fmt now s g) = skip 8 g"
    by (simp add: tick_rest n newValues_defrost_rest)
      (simp add: newBinaryStates_eq skip_skip)
qed



section \<open>The initial history\<close>

lemma initialData_point_eq:
  "initialData_point fmt now i g =
     (\<lparr>caseTemp = 35 + (g 0 - 0.5) * 2,
       suctionTemp = 20 + (g 1 - 0.5) * 2,
       dischargeTemp = 140 + (g 2 - 0.5) * 5,
       evaporatorTemp = 28 + (g 3 - 0.5) * 2,
       txValvePosition = 45 + (g 4 - 0.5) * 10,
       txValveSuperheat = 8 + (g 5 - 0.5) * 2,
       time = fmt (now - int i * 5000),
       timestamp = now - int i * 5000\<rparr>, skip 6 g)"
  by (simp add: initialData_point_def Math_random_eq Let_def skip_skip skip_apply eval_nat_numeral)

lemma initialData_loop_eq:
  "initialData_loop fmt now n acc g =
     (acc @ map (\<lambda>j. fst (initialData_point fmt now (n - j) (skip (6 * j) g))) [0..<n],
      skip (6 * n) g)"
proof (induction n arbitrary: acc g)
  case 0
  show ?case by (simp add: skip_def)
next
  case (Suc n)
  have p: "initialData_point fmt now (Suc n) g
      = (fst (initialData_point fmt now (Suc n) g), skip 6 g)"
    by (simp add: initialData_point_eq)
  have s: "\<And>j. skip (6 * j) (skip 6 g) = skip (6 * Suc j) g"
    by (simp add: skip_skip add.commute)
  have z: "skip 0 g = g"
    by (simp add: skip_def)
  show ?case
    apply (subst initialData_loop.simps)
    apply (subst p)
    apply (simp only: Let_def prod.case Suc.IH s)
    apply (simp only: map_upt_Suc [of _ n])
    apply (simp add: z)
    done
qed

lemma initialData_length: "length (fst (initialData fmt now g)) = 60"
  by (simp add: initialData_def initialData_loop_eq)

lemma initialData_nth:
  "k < 60 \<Longrightarrow> fst (initialData fmt now g) ! k
     = fst (initialData_point fmt now (60 - k) (skip (6 * k) g))"
  by (simp add: initialData_def initialData_loop_eq)

lemma initialData_rest: "snd (initialData fmt now g) = skip 360 g"
  by (simp add: initialData_def initialData_loop_eq)

lemma initialData_last_timestamp:
  "timestamp (last (fst (initialData fmt now g))) = now - 5000"
proof -
  have "fst (initialData fmt now g) \<noteq> []"
    using initialData_length [of fmt now g] by auto
  then have "last (fst (initialData fmt now g)) = fst (initialData fmt now g) ! 59"
    by (simp add: last_conv_nth initialData_length)
  then show ?thesis
    by (simp add: initialData_nth initialData_point_eq)
qed

lemma startup_data: "data (fst (startup fmt now g)) = fst (initialData fmt now g)"
  by (simp add: startup_def mount_def split_beta)



section \<open>The history buffer\<close>

lemma slice_last_length: "length (slice_last n xs) = min n (length xs)"
  by (simp add: slice_last_def)

lemma slice_last_short: "length xs \<le> n \<Longrightarrow> slice_last n xs = xs"
  by (simp add: slice_last_def)

lemma slice_last_snoc_slice:
  "slice_last n (slice_last n xs @ ys) = slice_last n (xs @ ys)"
proof (cases "length xs \<le> n")
  case True
  then show ?thesis by (simp add: slice_last_short)
next
  case False
  define m where "m = length xs - n"
  with False have len: "length xs = m + n"
    by simp
  have "slice_last n (slice_last n xs @ ys) = drop (length ys) (drop m xs @ ys)"
    by (simp add: slice_last_def len)
  also have "\<dots> = drop (length ys) (drop m (xs @ ys))"
    by (simp add: len)
  also have "\<dots> = drop (m + length ys) (xs @ ys)"
    by (simp only: drop_drop add.commute)
  also have "\<dots> = slice_last n (xs @ ys)"
    by (simp add: slice_last_def len)
  finally show ?thesis .
qed

lemma setData_eq: "setData xs p = slice_last 60 (xs @ [p])"
  by (simp add: setData_def)

lemma setData_cases:
  "setData xs p = (if length xs < 60 then xs @ [p] else drop (length xs - 59) xs @ [p])"
  by (simp add: setData_def slice_last_def)

lemma setData_last: "last (setData xs p) = p"
  by (simp add: setData_cases)

lemma setData_length: "length (setData xs p) \<le> 60"
  by (simp add: setData_eq slice_last_length)

lemma tick_data:
  "data (fst (tick fmt now s g))
     = setData (data s) (newDataPoint fmt now (currentValues (fst (tick fmt now s g))))"
  by (simp add: tick_def split_beta Let_def)

lemma tick_stored_caseTemp:
  "caseTemp (last (data (fst (tick fmt now s g)))) = caseTemp (currentValues (fst (tick fmt now s g)))"
  by (simp add: tick_data setData_last newDataPoint_def)

lemma newDataPoint_timestamp: "timestamp (newDataPoint fmt now nv) = now"
  by (simp add: newDataPoint_def)

lemma tick_points_length: "length (tick_points fmt nows s g) = length nows"
  by (induction nows arbitrary: s g) (simp_all add: split_beta)

lemma tick_points_timestamps: "map timestamp (tick_points fmt nows s g) = nows"
  by (induction nows arbitrary: s g) (simp_all add: split_beta newDataPoint_timestamp)

lemma ticks_data:
  "data (fst (ticks fmt nows s g)) = slice_last 60 (data s @ tick_points fmt nows s g)"
  if "length (data s) \<le> 60"
  using that
proof (induction nows arbitrary: s g)
  case Nil
  then show ?case by (simp add: slice_last_short)
next
  case (Cons now nows)
  obtain s' g' where t: "tick fmt now s g = (s', g')"
    by (cases "tick fmt now s g")
  then have d: "data s' = slice_last 60 (data s @ [newDataPoint fmt now (currentValues s')])"
    using tick_data [of fmt now s g] by (simp add: setData_eq)
  then have "length (data s') \<le> 60"
    by (simp add: slice_last_length)
  then have "data (fst (ticks fmt nows s' g'))
      = slice_last 60 (data s' @ tick_points fmt nows s' g')"
    by (rule Cons.IH)
  also have "\<dots> = slice_last 60
      ((data s @ [newDataPoint fmt now (currentValues s')]) @ tick_points fmt nows s' g')"
    unfolding d by (rule slice_last_snoc_slice)
  finally show ?case
    by (simp add: t)
qed

lemma startup_ticks_data:
  "data (fst (ticks fmt nows (fst (startup fmt now0 g0)) g))
     = slice_last 60 (fst (initialData fmt now0 g0)
         @ tick_points fmt nows (fst (startup fmt now0 g0)) g)"
  using ticks_data [of "fst (startup fmt now0 g0)" fmt nows g]
  by (simp add: startup_data initialData_length)



lemma tick_last_data:
  "last (data (fst (tick fmt now s g)))
     = newDataPoint fmt now (currentValues (fst (tick fmt now s g)))"
  by (subst tick_data) (rule setData_last)

lemma generateValue_normal_bounds:
  "min_cfg config \<le> max_cfg config \<Longrightarrow>
     min_cfg config \<le> fst (generateValue config p False g)
     \<and> fst (generateValue config p False g) \<le> max_cfg config"
  by (simp add: generateValue_normal)

lemma newValues_normal_within: "within_bounds (fst (newValues cv False g))"
proof -
  have c: "\<And>c. min_cfg (SIMULATION_CONFIG c) \<le> max_cfg (SIMULATION_CONFIG c)"
    subgoal for c by (cases c) simp_all
    done
  show ?thesis
    unfolding within_bounds_def newValues_def split_beta Let_def
    by (simp add: generateValue_normal_bounds [OF c] del: SIMULATION_CONFIG.simps)
qed

lemma within_bounds_newDataPoint: "within_bounds (newDataPoint fmt now nv) = within_bounds nv"
  by (simp add: within_bounds_def newDataPoint_def)


section \<open>The scripted defrost\<close>

lemma defrost_script_values:
  "defrost_script 0 = 0" "defrost_script 2 = 0"
  "skip 8 defrost_script 0 = 1 / 2" "skip 8 defrost_script 2 = 0"
  "skip 16 defrost_script 0 = 1 / 2" "skip 16 defrost_script 2 = 0"
  "skip 24 defrost_script 0 = 1 / 2" "skip 24 defrost_script 2 = 0"
  by (simp_all add: defrost_script_def draws_def skip_apply)

lemma defrost_script_unit: "unit_draws defrost_script"
  unfolding defrost_script_def by (rule unit_draws_draws) simp_all



section \<open>The two source files\<close>

lemma SIMULATION_CONFIG_i18n_eq: "SIMULATION_CONFIG_i18n = SIMULATION_CONFIG"
proof
  fix c
  show "SIMULATION_CONFIG_i18n c = SIMULATION_CONFIG c"
    by (cases c) simp_all
qed

lemma generateValue_i18n_eq: "generateValue_i18n = generateValue"
  by (intro ext) (simp only: generateValue_i18n_def generateValue_def)

lemma initial_dashboard_i18n_eq: "initial_dashboard_i18n = initial_dashboard"
  by (simp only: initial_dashboard_i18n_def initial_dashboard_def
      initial_binaryStates_i18n_def initial_binaryStates_def
      initial_currentValues_i18n_def initial_currentValues_def)

lemma initialData_point_i18n_eq: "initialData_point_i18n = initialData_point"
  by (intro ext) (simp only: initialData_point_i18n_def initialData_point_def)

lemma initialData_loop_i18n_eq:
  "initialData_loop_i18n fmt now n acc g = initialData_loop fmt now n acc g"
  by (induction n arbitrary: acc g) (simp_all add: initialData_point_i18n_eq split_beta)

lemma initialData_i18n_eq: "initialData_i18n = initialData"
  by (intro ext) (simp only: initialData_i18n_def initialData_def initialData_loop_i18n_eq)

lemma mount_i18n_eq: "mount_i18n = mount"
  by (intro ext) (simp only: mount_i18n_def mount_def initialData_i18n_eq)

lemma newBinaryStates_i18n_eq: "newBinaryStates_i18n = newBinaryStates"
proof -
  have "shouldStartDefrost_i18n = shouldStartDefrost"
    by (intro ext) (simp only: shouldStartDefrost_i18n_def shouldStartDefrost_def)
  moreover have "shouldEndDefrost_i18n = shouldEndDefrost"
    by (intro ext) (simp only: shouldEndDefrost_i18n_def shouldEndDefrost_def)
  ultimately show ?thesis
    by (intro ext) (simp only: newBinaryStates_i18n_def newBinaryStates_def)
qed

lemma newValues_i18n_eq: "newValues_i18n = newValues"
  by (intro ext)
    (simp only: newValues_i18n_def newValues_def generateValue_i18n_eq SIMULATION_CONFIG_i18n_eq)

lemma tick_i18n_eq: "tick_i18n = tick"
proof -
  have "newDataPoint_i18n = newDataPoint"
    by (intro ext) (simp only: newDataPoint_i18n_def newDataPoint_def)
  moreover have "setData_i18n = setData"
    by (intro ext) (simp only: setData_i18n_def setData_def)
  ultimately show ?thesis
    by (intro ext) (simp only: tick_i18n_def tick_def newBinaryStates_i18n_eq newValues_i18n_eq)
qed

lemma ticks_i18n_eq: "ticks_i18n fmt nows s g = ticks fmt nows s g"
  by (induction nows arbitrary: s g) (simp_all add: tick_i18n_eq split_beta)



section \<open>The claims\<close>

text \<open>
  Claim C1: every value stored in a sample lies in its channel's \<open>[min, max]\<close>, in normal
  and in defrost mode. The code does not keep this in defrost mode. From the initial
  cells, a defrost that starts at the first tick and lasts four ticks, every value draw
  being 0, takes the case temperature from 35 to 32.3 in three ticks, still within
  \<open>[32, 40]\<close>, and the fourth tick stores 31.4, below the channel's \<open>min\<close> of 32: the
  defrost branch clamps at \<open>max\<close> only, where the normal branch clamps at both ends.
\<close>

theorem defrost_sample_below_min:
  "unit_draws defrost_script
   \<and> caseTemp (currentValues (fst (ticks fmt [5000, 10000, 15000] initial_dashboard
         defrost_script))) = 323 / 10
   \<and> min_cfg (SIMULATION_CONFIG CaseTemp) \<le> 323 / 10
   \<and> 323 / 10 \<le> max_cfg (SIMULATION_CONFIG CaseTemp)
   \<and> defrostMode (binaryStates (fst (ticks fmt [5000, 10000, 15000, 20000] initial_dashboard
         defrost_script)))
   \<and> caseTemp (last (data (fst (ticks fmt [5000, 10000, 15000, 20000] initial_dashboard
         defrost_script)))) = 314 / 10
   \<and> caseTemp (last (data (fst (ticks fmt [5000, 10000, 15000, 20000] initial_dashboard
         defrost_script)))) < min_cfg (SIMULATION_CONFIG CaseTemp)"
proof -
  define s1 where "s1 = fst (tick fmt 5000 initial_dashboard defrost_script)"
  define s2 where "s2 = fst (tick fmt 10000 s1 (skip 8 defrost_script))"
  define s3 where "s3 = fst (tick fmt 15000 s2 (skip 16 defrost_script))"
  define s4 where "s4 = fst (tick fmt 20000 s3 (skip 24 defrost_script))"
  have i: "\<not> defrostMode (binaryStates initial_dashboard)"
    "caseTemp (currentValues initial_dashboard) = 35"
    by (simp_all add: initial_dashboard_def initial_binaryStates_def initial_currentValues_def)
  have t1: "tick fmt 5000 initial_dashboard defrost_script = (s1, skip 8 defrost_script)"
    and d1: "defrostMode (binaryStates s1)"
    and c1: "caseTemp (currentValues s1) = 341 / 10"
    using tick_in_defrost [of initial_dashboard defrost_script fmt 5000]
    by (simp_all add: s1_def i defrost_script_values prod_eq_iff)
  have t2: "tick fmt 10000 s1 (skip 8 defrost_script) = (s2, skip 16 defrost_script)"
    and d2: "defrostMode (binaryStates s2)"
    and c2: "caseTemp (currentValues s2) = 332 / 10"
    using tick_in_defrost [of s1 "skip 8 defrost_script" fmt 10000]
    by (simp_all add: s2_def d1 c1 defrost_script_values prod_eq_iff skip_skip)
  have t3: "tick fmt 15000 s2 (skip 16 defrost_script) = (s3, skip 24 defrost_script)"
    and d3: "defrostMode (binaryStates s3)"
    and c3: "caseTemp (currentValues s3) = 323 / 10"
    using tick_in_defrost [of s2 "skip 16 defrost_script" fmt 15000]
    by (simp_all add: s3_def d2 c2 defrost_script_values prod_eq_iff skip_skip)
  have t4: "tick fmt 20000 s3 (skip 24 defrost_script) = (s4, skip 32 defrost_script)"
    and d4: "defrostMode (binaryStates s4)"
    and c4: "caseTemp (currentValues s4) = 314 / 10"
    using tick_in_defrost [of s3 "skip 24 defrost_script" fmt 20000]
    by (simp_all add: s4_def d3 c3 defrost_script_values prod_eq_iff skip_skip)
  have l4: "caseTemp (last (data s4)) = 314 / 10"
    unfolding s4_def by (simp only: tick_stored_caseTemp) (simp add: c4 [unfolded s4_def])
  have r3: "ticks fmt [5000, 10000, 15000] initial_dashboard defrost_script
      = (s3, skip 24 defrost_script)"
    by (simp add: t1 t2 t3)
  have r4: "ticks fmt [5000, 10000, 15000, 20000] initial_dashboard defrost_script
      = (s4, skip 32 defrost_script)"
    by (simp add: t1 t2 t3 t4)
  show ?thesis
    unfolding r3 r4 by (simp add: c3 d4 l4 defrost_script_unit)
qed


theorem defrost_sample_below_min_witness:
  "caseTemp (last (data (fst (ticks (\<lambda>_. []) [5000, 10000, 15000, 20000] initial_dashboard
      defrost_script)))) < min_cfg (SIMULATION_CONFIG CaseTemp)"
  using defrost_sample_below_min [of "\<lambda>_. []"] by blast

text \<open>
  Claim C2. After every tick, from every state and with every sequence of draws, the
  compressor flag is the negation of the new defrost flag.
\<close>

theorem compressor_negates_defrost:
  "compressorRunning (binaryStates (fst (tick fmt now s g)))
     = (\<not> defrostMode (binaryStates (fst (tick fmt now s g))))"
  by (simp add: tick_binaryStates newBinaryStates_eq)

theorem compressor_negates_defrost_witness:
  "defrostMode (binaryStates (fst (tick (\<lambda>_. []) 5000 initial_dashboard (draws [] 0))))
   \<and> \<not> compressorRunning
         (binaryStates (fst (tick (\<lambda>_. []) 5000 initial_dashboard (draws [] 0))))
   \<and> \<not> defrostMode
         (binaryStates (fst (tick (\<lambda>_. []) 5000 initial_dashboard (draws [] (1 / 2)))))
   \<and> compressorRunning
         (binaryStates (fst (tick (\<lambda>_. []) 5000 initial_dashboard (draws [] (1 / 2)))))"
proof -
  have "defrostMode (binaryStates (fst (tick (\<lambda>_. []) 5000 initial_dashboard (draws [] 0))))"
    and "\<not> defrostMode
      (binaryStates (fst (tick (\<lambda>_. []) 5000 initial_dashboard (draws [] (1 / 2)))))"
    by (simp_all add: tick_binaryStates newBinaryStates_eq initial_dashboard_def
        initial_binaryStates_def draws_def)
  with compressor_negates_defrost [of "\<lambda>_. []" 5000 initial_dashboard "draws [] 0"]
    compressor_negates_defrost [of "\<lambda>_. []" 5000 initial_dashboard "draws [] (1 / 2)"]
  show ?thesis
    by simp
qed


text \<open>
  Claim C3. In defrost mode the generator returns \<open>min max (previous + u * variance *
  multiplier)\<close>, where \<open>u\<close> is the draw shifted into \<open>[-0.3, 0.7)\<close> and the multiplier
  is 1.5 for a baseline below 50 and 1.1 otherwise. Only the upper bound is applied: a
  value that does not exceed \<open>max\<close> is returned as it is, whatever \<open>min\<close> is. The call
  takes one draw.
\<close>

theorem defrost_value_formula:
  assumes "unit_draws g"
  shows "(let u = g 0 - 0.3;
              multiplier = (if baseline config < 50 then 1.5 else 1.1);
              next = previousValue + u * variance config * multiplier
          in - 0.3 \<le> u \<and> u < 0.7
           \<and> fst (generateValue config previousValue True g) = min (max_cfg config) next
           \<and> (if next \<le> max_cfg config
                then fst (generateValue config previousValue True g) = next
                else fst (generateValue config previousValue True g) = max_cfg config)
           \<and> snd (generateValue config previousValue True g) = skip 1 g)"
proof -
  from assms have "0 \<le> g 0" and "g 0 < 1"
    by (simp_all add: unit_draws_def)
  then show ?thesis
    by (simp add: generateValue_defrost Let_def min_def)
qed

theorem defrost_value_formula_witness:
  "fst (generateValue (SIMULATION_CONFIG CaseTemp) 32 True (\<lambda>_. 0)) = 311 / 10
   \<and> fst (generateValue (SIMULATION_CONFIG DischargeTemp) 150 True (\<lambda>_. 1 / 2)) = 1511 / 10
   \<and> fst (generateValue (SIMULATION_CONFIG DischargeTemp) 155 True (\<lambda>_. 1 / 2)) = 155"
  using defrost_value_formula [OF unit_draws_const [of 0], of "SIMULATION_CONFIG CaseTemp" 32]
    defrost_value_formula [OF unit_draws_const [of "1 / 2"],
      of "SIMULATION_CONFIG DischargeTemp" 150]
    defrost_value_formula [OF unit_draws_const [of "1 / 2"],
      of "SIMULATION_CONFIG DischargeTemp" 155]
  by (simp add: Let_def)


text \<open>
  Claim C4, as amended. In defrost mode the next value is at least the previous one when
  the draw is at least 0.3, the variance is not negative and the previous value does not
  exceed \<open>max\<close>.
\<close>

theorem defrost_rises_on_high_draws:
  assumes "0 \<le> variance config" and "previousValue \<le> max_cfg config" and "0.3 \<le> g 0"
  shows "previousValue \<le> fst (generateValue config previousValue True g)"
proof -
  have "0 \<le> (g 0 - 0.3) * variance config * (if baseline config < 50 then 1.5 else 1.1)"
    using assms by simp
  with assms(2) show ?thesis
    by (simp add: generateValue_defrost)
qed

theorem defrost_rises_on_high_draws_witness:
  "(0::real) \<le> variance (SIMULATION_CONFIG CaseTemp)
   \<and> 35 \<le> max_cfg (SIMULATION_CONFIG CaseTemp)
   \<and> (0.3::real) \<le> draws [] (1 / 2) 0
   \<and> (35::real) \<le> fst (generateValue (SIMULATION_CONFIG CaseTemp) 35 True (draws [] (1 / 2)))"
  using defrost_rises_on_high_draws [of "SIMULATION_CONFIG CaseTemp" 35 "draws [] (1 / 2)"]
  by (simp add: draws_def)


text \<open>
  Claim C4 as stated, a next value never below the previous one, fails: with the draw 0
  the case temperature falls from 35 to 34.1.
\<close>

theorem defrost_falls_counterexample:
  "unit_draws (draws [] 0)
   \<and> fst (generateValue (SIMULATION_CONFIG CaseTemp) 35 True (draws [] 0)) = 341 / 10
   \<and> \<not> 35 \<le> fst (generateValue (SIMULATION_CONFIG CaseTemp) 35 True (draws [] 0))"
  by (simp add: generateValue_defrost unit_draws_draws) (simp add: draws_def)


text \<open>
  Claim C5. In normal mode the generator computes \<open>target = baseline + u1 * variance\<close> and
  \<open>next = previous + (target - previous) * 0.3 + u2 * variance * 0.5\<close>, with \<open>u1\<close> and
  \<open>u2\<close> the first and second draw shifted into \<open>[-0.5, 0.5)\<close>, and returns
  \<open>max min (min max next)\<close>: \<open>next\<close> clamped to \<open>[min, max]\<close> when that interval is not
  empty. The call takes two draws.
\<close>

theorem normal_value_formula:
  assumes "unit_draws g"
  shows "(let u1 = g 0 - 0.5;
              u2 = g 1 - 0.5;
              target = baseline config + u1 * variance config;
              next = previousValue + (target - previousValue) * 0.3 + u2 * variance config * 0.5
          in - 0.5 \<le> u1 \<and> u1 < 0.5 \<and> - 0.5 \<le> u2 \<and> u2 < 0.5
           \<and> fst (generateValue config previousValue False g)
               = max (min_cfg config) (min (max_cfg config) next)
           \<and> (if min_cfg config \<le> max_cfg config
                then fst (generateValue config previousValue False g)
                       = clamp_to (min_cfg config) (max_cfg config) next
                else fst (generateValue config previousValue False g) = min_cfg config)
           \<and> snd (generateValue config previousValue False g) = skip 2 g)"
proof -
  define nxt where "nxt = previousValue
    + (baseline config + (g 0 - 0.5) * variance config - previousValue) * 0.3
    + (g 1 - 0.5) * variance config * 0.5"
  from assms have "0 \<le> g 0" "g 0 < 1" "0 \<le> g 1" "g 1 < 1"
    by (simp_all add: unit_draws_def)
  then have u: "- 0.5 \<le> g 0 - 0.5" "g 0 - 0.5 < 0.5" "- 0.5 \<le> g 1 - 0.5" "g 1 - 0.5 < 0.5"
    by simp_all
  have v: "fst (generateValue config previousValue False g)
      = max (min_cfg config) (min (max_cfg config) nxt)"
    by (simp add: generateValue_normal nxt_def add.assoc)
  have c: "if min_cfg config \<le> max_cfg config
      then max (min_cfg config) (min (max_cfg config) nxt)
             = clamp_to (min_cfg config) (max_cfg config) nxt
      else max (min_cfg config) (min (max_cfg config) nxt) = min_cfg config"
    by (simp add: clamp_to_def min_def max_def)
  have r: "snd (generateValue config previousValue False g) = skip 2 g"
    by (simp add: generateValue_normal)
  from u v c r show ?thesis
    unfolding Let_def nxt_def by presburger
qed

theorem normal_value_formula_witness:
  "fst (generateValue (SIMULATION_CONFIG CaseTemp) 39 False (\<lambda>_. 1 / 2)) = 189 / 5
   \<and> fst (generateValue (SIMULATION_CONFIG CaseTemp) 20 False (\<lambda>_. 0)) = 32"
  using normal_value_formula [OF unit_draws_const [of "1 / 2"], of "SIMULATION_CONFIG CaseTemp" 39]
    normal_value_formula [OF unit_draws_const [of 0], of "SIMULATION_CONFIG CaseTemp" 20]
  by (simp add: Let_def clamp_to_def)


text \<open>
  Claim C6. After every tick the fan flag is the negation of the defrost flag before the
  tick, and the alarm flag says that the case temperature before the tick exceeds 38 or
  that the defrost flag before the tick is set.
\<close>

theorem fan_and_alarm_read_old_state:
  "evaporatorFan (binaryStates (fst (tick fmt now s g))) = (\<not> defrostMode (binaryStates s))
   \<and> alarmStatus (binaryStates (fst (tick fmt now s g)))
       = (caseTemp (currentValues s) > 38 \<or> defrostMode (binaryStates s))"
  by (simp add: tick_binaryStates newBinaryStates_eq)

theorem fan_and_alarm_read_old_state_witness:
  "evaporatorFan (binaryStates (fst (tick (\<lambda>_. []) 5000 initial_dashboard (draws [] 0))))
   \<and> \<not> alarmStatus
         (binaryStates (fst (tick (\<lambda>_. []) 5000 initial_dashboard (draws [] 0))))
   \<and> defrostMode (binaryStates (fst (tick (\<lambda>_. []) 5000 initial_dashboard (draws [] 0))))"
proof -
  have "defrostMode (binaryStates (fst (tick (\<lambda>_. []) 5000 initial_dashboard (draws [] 0))))"
    by (simp add: tick_binaryStates newBinaryStates_eq initial_dashboard_def
        initial_binaryStates_def draws_def)
  moreover have "\<not> defrostMode (binaryStates initial_dashboard)"
    and "\<not> caseTemp (currentValues initial_dashboard) > 38"
    by (simp_all add: initial_dashboard_def initial_binaryStates_def initial_currentValues_def)
  ultimately show ?thesis
    using fan_and_alarm_read_old_state [of "\<lambda>_. []" 5000 initial_dashboard "draws [] 0"]
    by simp
qed


text \<open>
  Claim C7. A tick leaves at most 60 data points. It appends exactly one, the new data
  point, last: to a history of fewer than 60 it only appends, and from a history of 60 it
  drops the oldest. After a fresh start the history holds 60 data points and keeps
  holding 60 after any ticks. After 61 ticks from a fresh start, at times not before the
  start, the history is the data points of the last 60 ticks, and the first data point of
  the initial history is no longer in it.
\<close>

theorem history_bounded_fifo:
  assumes "length nows = 61" and "\<forall>t\<in>set nows. now0 \<le> t"
  shows "length (data (fst (tick fmt now s g))) \<le> 60
    \<and> last (data (fst (tick fmt now s g)))
        = newDataPoint fmt now (currentValues (fst (tick fmt now s g)))
    \<and> (if length (data s) < 60
        then data (fst (tick fmt now s g))
          = data s @ [newDataPoint fmt now (currentValues (fst (tick fmt now s g)))]
        else data (fst (tick fmt now s g))
          = drop (length (data s) - 59) (data s)
              @ [newDataPoint fmt now (currentValues (fst (tick fmt now s g)))])
    \<and> (length (data s) = 60 \<longrightarrow> data (fst (tick fmt now s g))
          = tl (data s) @ [newDataPoint fmt now (currentValues (fst (tick fmt now s g)))])
    \<and> length (data (fst (startup fmt now0 g0))) = 60
    \<and> length (data (fst (ticks fmt ms (fst (startup fmt now0 g0)) (snd (startup fmt now0 g0)))))
        = 60
    \<and> data (fst (ticks fmt nows (fst (startup fmt now0 g0)) (snd (startup fmt now0 g0))))
        = tl (tick_points fmt nows (fst (startup fmt now0 g0)) (snd (startup fmt now0 g0)))
    \<and> map timestamp
          (data (fst (ticks fmt nows (fst (startup fmt now0 g0)) (snd (startup fmt now0 g0)))))
        = tl nows
    \<and> hd (data (fst (startup fmt now0 g0)))
        \<notin> set (data (fst (ticks fmt nows (fst (startup fmt now0 g0))
                   (snd (startup fmt now0 g0)))))"
proof -
  let ?s0 = "fst (startup fmt now0 g0)" and ?g1 = "snd (startup fmt now0 g0)"
  let ?after = "data (fst (ticks fmt nows ?s0 ?g1))"
  let ?pts = "tick_points fmt nows ?s0 ?g1"
  have one: "length (data (fst (tick fmt now s g))) \<le> 60"
    by (simp add: tick_data setData_length)
  have new: "last (data (fst (tick fmt now s g)))
      = newDataPoint fmt now (currentValues (fst (tick fmt now s g)))"
    by (subst tick_data) (rule setData_last)
  have fifo: "if length (data s) < 60
      then data (fst (tick fmt now s g))
        = data s @ [newDataPoint fmt now (currentValues (fst (tick fmt now s g)))]
      else data (fst (tick fmt now s g))
        = drop (length (data s) - 59) (data s)
            @ [newDataPoint fmt now (currentValues (fst (tick fmt now s g)))]"
    using tick_data [of fmt now s g] by (simp add: setData_cases)
  have evict: "length (data s) = 60 \<longrightarrow> data (fst (tick fmt now s g))
      = tl (data s) @ [newDataPoint fmt now (currentValues (fst (tick fmt now s g)))]"
    using tick_data [of fmt now s g] by (simp add: setData_cases drop_Suc)
  have boot: "length (data ?s0) = 60"
    by (simp add: startup_data initialData_length)
  have full: "length (data (fst (ticks fmt ms ?s0 ?g1))) = 60"
    by (simp add: startup_ticks_data slice_last_length initialData_length)
  have "?after = drop 61 (fst (initialData fmt now0 g0) @ ?pts)"
    by (simp add: startup_ticks_data slice_last_def initialData_length tick_points_length assms(1))
  also have "\<dots> = drop 1 ?pts"
    by (simp add: initialData_length)
  finally have after: "?after = tl ?pts"
    by (simp add: drop_Suc)
  then have stamps: "map timestamp ?after = tl nows"
    by (simp add: map_tl tick_points_timestamps)
  have "fst (initialData fmt now0 g0) \<noteq> []"
    using initialData_length [of fmt now0 g0] by auto
  then have "hd (data ?s0) = fst (initialData fmt now0 g0) ! 0"
    by (simp add: startup_data hd_conv_nth)
  then have first: "timestamp (hd (data ?s0)) = now0 - 300000"
    by (simp add: initialData_nth initialData_point_eq)
  have gone: "hd (data ?s0) \<notin> set ?after"
  proof
    assume "hd (data ?s0) \<in> set ?after"
    then have "timestamp (hd (data ?s0)) \<in> set (map timestamp ?after)"
      by (simp only: set_map) (rule imageI)
    with stamps have "timestamp (hd (data ?s0)) \<in> set (tl nows)"
      by simp
    then have "timestamp (hd (data ?s0)) \<in> set nows"
      by (cases nows) simp_all
    with assms(2) have "now0 \<le> timestamp (hd (data ?s0))"
      by blast
    with first show False
      by simp
  qed
  from one new fifo evict boot full after stamps gone show ?thesis
    by (intro conjI)
qed

theorem history_bounded_fifo_witness:
  "length (map (\<lambda>k. int k * 5000) [1..<62]) = 61
   \<and> length (data (fst (tick (\<lambda>_. []) 5000 initial_dashboard (draws [] (1 / 2))))) \<le> 60
   \<and> length (data (fst (ticks (\<lambda>_. []) (map (\<lambda>k. int k * 5000) [1..<62])
        (fst (startup (\<lambda>_. []) 0 (draws [] (1 / 2))))
        (snd (startup (\<lambda>_. []) 0 (draws [] (1 / 2))))))) = 60
   \<and> map timestamp (data (fst (ticks (\<lambda>_. []) (map (\<lambda>k. int k * 5000) [1..<62])
        (fst (startup (\<lambda>_. []) 0 (draws [] (1 / 2))))
        (snd (startup (\<lambda>_. []) 0 (draws [] (1 / 2)))))))
       = tl (map (\<lambda>k. int k * 5000) [1..<62])
   \<and> hd (data (fst (startup (\<lambda>_. []) 0 (draws [] (1 / 2)))))
        \<notin> set (data (fst (ticks (\<lambda>_. []) (map (\<lambda>k. int k * 5000) [1..<62])
             (fst (startup (\<lambda>_. []) 0 (draws [] (1 / 2))))
             (snd (startup (\<lambda>_. []) 0 (draws [] (1 / 2)))))))"
proof -
  have l: "length (map (\<lambda>k. int k * 5000) [1..<62]) = 61"
    by simp
  have t: "\<forall>t\<in>set (map (\<lambda>k. int k * 5000) [1..<62]). 0 \<le> t"
    by simp
  from l history_bounded_fifo [OF l t, of "\<lambda>_. []" 5000 initial_dashboard "draws [] (1 / 2)"
      "draws [] (1 / 2)" "map (\<lambda>k. int k * 5000) [1..<62]"]
  show ?thesis
    by blast
qed


text \<open>
  Claim C8, as amended. The initial history has exactly 60 data points, their timestamps
  5000 ms apart, the \<open>k\<close>-th at \<open>now - 5000 * (60 - k)\<close>, so the last one lies 5000 ms
  before \<open>now\<close>. Each value is its channel's baseline plus a draw of its own shifted
  into \<open>[-0.5, 0.5)\<close> and scaled (by 2, 2, 5, 2, 10 and 2), 360 draws in all; every
  case temperature of the initial history lies in \<open>[33, 37]\<close>.
\<close>

theorem initial_history_shape:
  assumes "unit_draws g"
  shows "length (fst (initialData fmt now g)) = 60
    \<and> (\<forall>k<60. timestamp (fst (initialData fmt now g) ! k) = now - 5000 * (60 - int k))
    \<and> (\<forall>k<59. timestamp (fst (initialData fmt now g) ! Suc k)
                  - timestamp (fst (initialData fmt now g) ! k) = 5000)
    \<and> timestamp (last (fst (initialData fmt now g))) = now - 5000
    \<and> (\<forall>k<60.
          caseTemp (fst (initialData fmt now g) ! k)
            = baseline (SIMULATION_CONFIG CaseTemp) + (g (6 * k) - 0.5) * 2
        \<and> suctionTemp (fst (initialData fmt now g) ! k)
            = baseline (SIMULATION_CONFIG SuctionTemp) + (g (6 * k + 1) - 0.5) * 2
        \<and> dischargeTemp (fst (initialData fmt now g) ! k)
            = baseline (SIMULATION_CONFIG DischargeTemp) + (g (6 * k + 2) - 0.5) * 5
        \<and> evaporatorTemp (fst (initialData fmt now g) ! k)
            = baseline (SIMULATION_CONFIG EvaporatorTemp) + (g (6 * k + 3) - 0.5) * 2
        \<and> txValvePosition (fst (initialData fmt now g) ! k)
            = baseline (SIMULATION_CONFIG TxValvePosition) + (g (6 * k + 4) - 0.5) * 10
        \<and> txValveSuperheat (fst (initialData fmt now g) ! k)
            = baseline (SIMULATION_CONFIG TxValveSuperheat) + (g (6 * k + 5) - 0.5) * 2)
    \<and> (\<forall>k<60. 33 \<le> caseTemp (fst (initialData fmt now g) ! k)
              \<and> caseTemp (fst (initialData fmt now g) ! k) \<le> 37)
    \<and> snd (initialData fmt now g) = skip 360 g"
proof -
  have ts: "\<forall>k<60. timestamp (fst (initialData fmt now g) ! k) = now - 5000 * (60 - int k)"
    by (simp add: initialData_nth initialData_point_eq of_nat_diff)
  have gap: "\<forall>k<59. timestamp (fst (initialData fmt now g) ! Suc k)
                  - timestamp (fst (initialData fmt now g) ! k) = 5000"
  proof (intro allI impI)
    fix k :: nat
    assume "k < 59"
    then have "k < 60" and "Suc k < 60"
      by simp_all
    with ts show "timestamp (fst (initialData fmt now g) ! Suc k)
        - timestamp (fst (initialData fmt now g) ! k) = 5000"
      by simp
  qed
  have vals: "\<forall>k<60.
          caseTemp (fst (initialData fmt now g) ! k)
            = baseline (SIMULATION_CONFIG CaseTemp) + (g (6 * k) - 0.5) * 2
        \<and> suctionTemp (fst (initialData fmt now g) ! k)
            = baseline (SIMULATION_CONFIG SuctionTemp) + (g (6 * k + 1) - 0.5) * 2
        \<and> dischargeTemp (fst (initialData fmt now g) ! k)
            = baseline (SIMULATION_CONFIG DischargeTemp) + (g (6 * k + 2) - 0.5) * 5
        \<and> evaporatorTemp (fst (initialData fmt now g) ! k)
            = baseline (SIMULATION_CONFIG EvaporatorTemp) + (g (6 * k + 3) - 0.5) * 2
        \<and> txValvePosition (fst (initialData fmt now g) ! k)
            = baseline (SIMULATION_CONFIG TxValvePosition) + (g (6 * k + 4) - 0.5) * 10
        \<and> txValveSuperheat (fst (initialData fmt now g) ! k)
            = baseline (SIMULATION_CONFIG TxValveSuperheat) + (g (6 * k + 5) - 0.5) * 2"
    by (simp add: initialData_nth initialData_point_eq skip_apply add.commute)
  have bnd: "\<forall>k<60. 33 \<le> caseTemp (fst (initialData fmt now g) ! k)
              \<and> caseTemp (fst (initialData fmt now g) ! k) \<le> 37"
  proof (intro allI impI)
    fix k :: nat
    assume k: "k < 60"
    from assms have "0 \<le> g (6 * k)" and "g (6 * k) < 1"
      by (simp_all add: unit_draws_def)
    with k show "33 \<le> caseTemp (fst (initialData fmt now g) ! k)
        \<and> caseTemp (fst (initialData fmt now g) ! k) \<le> 37"
      by (simp add: initialData_nth initialData_point_eq skip_apply)
  qed
  from ts gap vals bnd show ?thesis
    by (simp only: initialData_length initialData_last_timestamp initialData_rest simp_thms)
qed

theorem initial_history_shape_witness:
  "unit_draws (draws [] (1 / 2))
   \<and> length (fst (initialData (\<lambda>_. []) 300000 (draws [] (1 / 2)))) = 60
   \<and> timestamp (fst (initialData (\<lambda>_. []) 300000 (draws [] (1 / 2))) ! 0) = 0
   \<and> timestamp (fst (initialData (\<lambda>_. []) 300000 (draws [] (1 / 2))) ! 59) = 295000
   \<and> timestamp (last (fst (initialData (\<lambda>_. []) 300000 (draws [] (1 / 2))))) = 295000
   \<and> caseTemp (fst (initialData (\<lambda>_. []) 300000 (draws [] (1 / 2))) ! 59) = 35
   \<and> suctionTemp (fst (initialData (\<lambda>_. []) 300000 (draws [] (1 / 2))) ! 59) = 20"
proof -
  have u: "unit_draws (draws [] (1 / 2))"
    by (simp add: unit_draws_draws)
  have d: "\<And>n. draws [] (1 / 2) n = 1 / 2"
    by (simp add: draws_def)
  from u initial_history_shape [OF u, of "\<lambda>_. []" 300000] show ?thesis
    by (simp add: d)
qed


text \<open>
  Claim C8 as stated, a history ending at \<open>now\<close>, fails: started at 300000 ms, the
  last data point is stamped 295000.
\<close>

theorem initial_history_end_counterexample:
  "timestamp (last (fst (initialData (\<lambda>_. []) 300000 (draws [] (1 / 2))))) = 295000
   \<and> timestamp (last (fst (initialData (\<lambda>_. []) 300000 (draws [] (1 / 2))))) \<noteq> 300000"
  by (simp add: initialData_last_timestamp)


text \<open>
  Claim C9. In normal mode the value returned lies in \<open>[min, max]\<close> for every previous
  value, whenever \<open>min \<le> max\<close>; so it does for the value a defrost-mode call has just
  returned, which may lie below \<open>min\<close>. Hence the six new values of normal mode lie
  within their channels' bounds whatever the current values are, and a tick that leaves
  the dashboard out of defrost publishes and stores a reading within bounds, from every
  state.
\<close>

theorem normal_value_in_bounds:
  assumes "min_cfg config \<le> max_cfg config"
  shows "min_cfg config \<le> fst (generateValue config previousValue False g)
       \<and> fst (generateValue config previousValue False g) \<le> max_cfg config
       \<and> min_cfg config \<le> fst (generateValue config
            (fst (generateValue config previousValue True g)) False
            (snd (generateValue config previousValue True g)))
       \<and> fst (generateValue config
            (fst (generateValue config previousValue True g)) False
            (snd (generateValue config previousValue True g))) \<le> max_cfg config
       \<and> within_bounds (fst (newValues cv False g))
       \<and> (\<not> defrostMode (binaryStates (fst (tick fmt now s g))) \<longrightarrow>
            within_bounds (currentValues (fst (tick fmt now s g)))
            \<and> within_bounds (last (data (fst (tick fmt now s g)))))"
proof -
  have gen: "\<And>p h. min_cfg config \<le> fst (generateValue config p False h)
      \<and> fst (generateValue config p False h) \<le> max_cfg config"
    using assms by (rule generateValue_normal_bounds)
  have nv: "within_bounds (fst (newValues cv False g))"
    by (rule newValues_normal_within)
  have tk: "\<not> defrostMode (binaryStates (fst (tick fmt now s g))) \<longrightarrow>
      within_bounds (currentValues (fst (tick fmt now s g)))
      \<and> within_bounds (last (data (fst (tick fmt now s g))))"
  proof
    assume "\<not> defrostMode (binaryStates (fst (tick fmt now s g)))"
    then have n: "\<not> defrostMode (fst (newBinaryStates (binaryStates s) (currentValues s) g))"
      by (simp add: tick_binaryStates)
    have cur: "within_bounds (currentValues (fst (tick fmt now s g)))"
      by (simp add: tick_currentValues n newValues_normal_within)
    then show "within_bounds (currentValues (fst (tick fmt now s g)))
        \<and> within_bounds (last (data (fst (tick fmt now s g))))"
      by (simp add: tick_last_data within_bounds_newDataPoint)
  qed
  from gen [of previousValue g]
    gen [of "fst (generateValue config previousValue True g)"
      "snd (generateValue config previousValue True g)"] nv tk
  show ?thesis
    by (intro conjI) simp_all
qed

theorem normal_value_in_bounds_witness:
  "min_cfg (SIMULATION_CONFIG CaseTemp) \<le> max_cfg (SIMULATION_CONFIG CaseTemp)
   \<and> fst (generateValue (SIMULATION_CONFIG CaseTemp) 32 True (draws [] 0)) = 311 / 10
   \<and> 311 / 10 < min_cfg (SIMULATION_CONFIG CaseTemp)
   \<and> min_cfg (SIMULATION_CONFIG CaseTemp)
        \<le> fst (generateValue (SIMULATION_CONFIG CaseTemp) (311 / 10) False (draws [] 0))
   \<and> fst (generateValue (SIMULATION_CONFIG CaseTemp) (311 / 10) False (draws [] 0))
        \<le> max_cfg (SIMULATION_CONFIG CaseTemp)
   \<and> \<not> within_bounds (currentValues undershot_dashboard)
   \<and> \<not> defrostMode (binaryStates (fst (tick (\<lambda>_. []) 5000 undershot_dashboard (draws [] 0))))
   \<and> within_bounds (currentValues (fst (tick (\<lambda>_. []) 5000 undershot_dashboard (draws [] 0))))
   \<and> within_bounds (last (data (fst (tick (\<lambda>_. []) 5000 undershot_dashboard (draws [] 0)))))"
proof -
  have a: "fst (generateValue (SIMULATION_CONFIG CaseTemp) 32 True (draws [] 0)) = 311 / 10"
    by (simp add: generateValue_defrost draws_def)
  have b: "\<not> within_bounds (currentValues undershot_dashboard)"
    by (simp add: within_bounds_def undershot_dashboard_def)
  have c: "\<not> defrostMode
      (binaryStates (fst (tick (\<lambda>_. []) 5000 undershot_dashboard (draws [] 0))))"
    by (simp add: tick_binaryStates newBinaryStates_eq undershot_dashboard_def draws_def)
  have d: "min_cfg (SIMULATION_CONFIG CaseTemp) \<le> max_cfg (SIMULATION_CONFIG CaseTemp)"
    and e: "311 / 10 < min_cfg (SIMULATION_CONFIG CaseTemp)"
    by simp_all
  from a b c d e normal_value_in_bounds [OF d, of "311 / 10" "draws [] 0"
      "currentValues undershot_dashboard" "\<lambda>_. []" 5000 undershot_dashboard]
  show ?thesis
    by blast
qed

text \<open>
  Claim C10. The simulator of the dashboard with translations is the simulator of the
  first file: the channel parameters, the value generator, the initial cells, the initial
  history, the state machine, the six new values, one tick and any run of ticks are equal
  as functions.
\<close>

theorem translated_dashboard_same_simulator:
  "SIMULATION_CONFIG_i18n = SIMULATION_CONFIG
   \<and> generateValue_i18n = generateValue
   \<and> initial_dashboard_i18n = initial_dashboard
   \<and> initialData_i18n = initialData
   \<and> mount_i18n = mount
   \<and> newBinaryStates_i18n = newBinaryStates
   \<and> newValues_i18n = newValues
   \<and> tick_i18n = tick
   \<and> ticks_i18n = ticks"
proof -
  have "ticks_i18n = ticks"
    by (intro ext) (rule ticks_i18n_eq)
  then show ?thesis
    by (simp only: SIMULATION_CONFIG_i18n_eq generateValue_i18n_eq initial_dashboard_i18n_eq
        initialData_i18n_eq mount_i18n_eq newBinaryStates_i18n_eq newValues_i18n_eq
        tick_i18n_eq simp_thms)
qed

theorem translated_dashboard_same_simulator_witness:
  "generateValue_i18n (SIMULATION_CONFIG_i18n CaseTemp) 35 True (draws [] 0)
     = generateValue (SIMULATION_CONFIG CaseTemp) 35 True (draws [] 0)
   \<and> initialData_i18n (\<lambda>_. []) 300000 (draws [] (1 / 2))
     = initialData (\<lambda>_. []) 300000 (draws [] (1 / 2))
   \<and> tick_i18n (\<lambda>_. []) 5000 initial_dashboard_i18n (draws [] 0)
     = tick (\<lambda>_. []) 5000 initial_dashboard (draws [] 0)"
  using translated_dashboard_same_simulator by (simp only: simp_thms)


end
